theory Spec2Isabelle
  imports Main "HOL-Library.Word" "HOL-Library.Monad_Syntax"
begin

section \<open>The Verilator test bench wrapper \<open>TESTB\<close> of \<open>sim/testb.h\<close>\<close>

text \<open>
  \<open>TESTB<VA>\<close> wraps a Verilator model \<open>VA\<close>: it owns the model, an optional trace
  object (\<open>TRACECLASS\<close>, that is \<open>VerilatedVcdC\<close>) and the simulated time in picoseconds.
  The model and the trace class belong to Verilator and to the generated design, not to
  this file, so both are represented by what the wrapper does to them:

  \<^item> a trace object is the list of the calls it has received, oldest first;
  \<^item> the model is its two inputs that the wrapper drives, \<open>i_clk\<close> and \<open>i_reset\<close>, the
    list of its evaluations (each with the values of the two inputs it was run on), and,
    in the record's extension, every other member of the design.

  A call through a null \<open>m_trace\<close> pointer has no result: the operations return an
  \<open>option\<close>, and \<open>None\<close> is that crash. \<open>m_core\<close> is set by the constructor and
  cleared by the destructor only; the destructor ends the object and is not part of what
  follows.
\<close>

subsection \<open>Data\<close>

datatype trace_call =
    Register int                 \<comment> \<open>\<open>m_core->trace(m_trace, levels)\<close>\<close>
  | Set_time_resolution string   \<comment> \<open>\<open>spTrace()->set_time_resolution(..)\<close>\<close>
  | Set_time_unit string         \<comment> \<open>\<open>spTrace()->set_time_unit(..)\<close>\<close>
  | Open string                  \<comment> \<open>\<open>open(vcdname)\<close>\<close>
  | Dump "64 word"               \<comment> \<open>\<open>dump(time)\<close>\<close>
  | Flush                        \<comment> \<open>\<open>flush()\<close>\<close>
  | Close                        \<comment> \<open>\<open>close()\<close>\<close>

type_synonym tracec = "trace_call list"

record core =
  i_clk :: nat
  i_reset :: nat
  evals :: "(nat \<times> nat) list"

text \<open>
  The members of the class, in the order of their declaration. \<open>closed\<close> is not a member:
  it is the environment's list of the trace objects that were closed and deleted, so that
  what a finished trace file holds can still be read.
\<close>

record 'x testb =
  m_core :: "'x core_scheme"
  m_changed :: bool
  m_trace :: "tracec option"
  m_done :: bool
  m_paused_trace :: bool
  m_time_ps :: "64 word"
  closed :: "tracec list"

subsection \<open>Operations\<close>

text \<open>
  The constructor. \<open>new VA\<close> is the argument \<open>va\<close>; \<open>m_changed\<close> is not initialised
  by the constructor, so the value it happens to hold is an argument too.
  (\<open>Verilated::traceEverOn(true)\<close> changes no member.)
\<close>

definition TESTB :: "'x core_scheme \<Rightarrow> bool \<Rightarrow> 'x testb" where
  "TESTB va changed0 =
     \<lparr> m_core = va, m_changed = changed0, m_trace = None, m_done = False,
       m_paused_trace = False, m_time_ps = 0, closed = [] \<rparr>"

text \<open>A method call \<open>m_trace->c\<close>: it dereferences \<open>m_trace\<close>.\<close>

definition call_trace :: "trace_call \<Rightarrow> 'x testb \<Rightarrow> 'x testb option" where
  "call_trace c s =
     (case m_trace s of
        None \<Rightarrow> None
      | Some tr \<Rightarrow> Some (s\<lparr> m_trace := Some (tr @ [c]) \<rparr>))"

definition opentrace :: "string \<Rightarrow> int \<Rightarrow> 'x testb \<Rightarrow> 'x testb option" where
  "opentrace vcdname depth s =
     (if m_trace s = None then do {
        let s1 = s\<lparr> m_trace := Some [] \<rparr>;
        s2 \<leftarrow> call_trace (Register 99) s1;
        s3 \<leftarrow> call_trace (Set_time_resolution ''ps'') s2;
        s4 \<leftarrow> call_trace (Set_time_unit ''ps'') s3;
        s5 \<leftarrow> call_trace (Open vcdname) s4;
        Some (s5\<lparr> m_paused_trace := False \<rparr>)
      } else Some s)"

definition trace :: "string \<Rightarrow> 'x testb \<Rightarrow> 'x testb option" where
  "trace vcdname s = opentrace vcdname 99 s"

definition pausetrace :: "bool \<Rightarrow> 'x testb \<Rightarrow> bool \<times> 'x testb" where
  "pausetrace p s = (let s1 = s\<lparr> m_paused_trace := p \<rparr> in (m_paused_trace s1, s1))"

definition pausetrace_query :: "'x testb \<Rightarrow> bool" where
  "pausetrace_query s = m_paused_trace s"

definition closetrace :: "'x testb \<Rightarrow> 'x testb option" where
  "closetrace s =
     (if m_trace s \<noteq> None then do {
        s1 \<leftarrow> call_trace Close s;
        Some (s1\<lparr> m_trace := None, closed := closed s1 @ (case m_trace s1 of None \<Rightarrow> [] | Some tr \<Rightarrow> [tr]) \<rparr>)
      } else Some s)"

text \<open>\<open>m_core->eval()\<close>: one more evaluation of the model, on its current inputs.\<close>

definition core_eval :: "'x core_scheme \<Rightarrow> 'x core_scheme" where
  "core_eval c = c\<lparr> evals := evals c @ [(i_clk c, i_reset c)] \<rparr>"

definition eval :: "'x testb \<Rightarrow> 'x testb" where
  "eval s = s\<lparr> m_core := core_eval (m_core s) \<rparr>"

definition sim_clk_tick :: "'x testb \<Rightarrow> 'x testb" where
  "sim_clk_tick s = s\<lparr> m_changed := False \<rparr>"

definition tick :: "'x testb \<Rightarrow> 'x testb option" where
  "tick s = do {
     let s1 = eval s;
     s2 \<leftarrow> (if m_trace s1 \<noteq> None \<and> \<not> m_paused_trace s1
            then call_trace (Dump (m_time_ps s1 + 6944)) s1 else Some s1);
     let s3 = s2\<lparr> m_time_ps := m_time_ps s2 + 13888 \<rparr>;
     let s4 = s3\<lparr> m_core := (m_core s3)\<lparr> i_clk := 1 \<rparr> \<rparr>;
     let s5 = eval s4;
     s6 \<leftarrow> (if m_trace s5 \<noteq> None \<and> \<not> m_paused_trace s5
            then do {
              t \<leftarrow> call_trace (Dump (m_time_ps s5)) s5;
              call_trace Flush t
            } else Some s5);
     let s7 = s6\<lparr> m_core := (m_core s6)\<lparr> i_clk := 0 \<rparr> \<rparr>;
     let s8 = s7\<lparr> m_time_ps := m_time_ps s7 + 13889 \<rparr>;
     let s9 = eval s8;
     s10 \<leftarrow> (if m_trace s9 \<noteq> None \<and> \<not> m_paused_trace s9
             then call_trace (Dump (m_time_ps s9)) s9 else Some s9);
     Some (sim_clk_tick s10)
   }"

text \<open>
  \<open>done()\<close>. \<open>Verilated::gotFinish()\<close> is a flag of the Verilator run time, outside the
  class: the value it has when \<open>done()\<close> reads it is the argument \<open>gotFinish\<close>.
  The result is the returned value and the state.
\<close>

definition done_tb :: "bool \<Rightarrow> 'x testb \<Rightarrow> bool \<times> 'x testb" where
  "done_tb gotFinish s =
     (if m_done s then (True, s)
      else (let s1 = (if gotFinish then s\<lparr> m_done := True \<rparr> else s)
            in (m_done s1, s1)))"

definition reset :: "'x testb \<Rightarrow> 'x testb option" where
  "reset s = do {
     let s1 = s\<lparr> m_core := (m_core s)\<lparr> i_reset := 1 \<rparr> \<rparr>;
     s2 \<leftarrow> tick s1;
     Some (s2\<lparr> m_core := (m_core s2)\<lparr> i_reset := 0 \<rparr> \<rparr>)
   }"

subsection \<open>Sequences of calls\<close>

text \<open>
  What a caller can do with a test bench: any sequence of its methods. \<open>Done\<close> carries the
  value \<open>Verilated::gotFinish()\<close> has at that call.
\<close>

datatype call =
    Opentrace string int
  | Trace string
  | Pausetrace bool
  | Pausetrace_query
  | Closetrace
  | Eval
  | Tick
  | Done bool
  | Reset

fun do_call :: "call \<Rightarrow> 'x testb \<Rightarrow> 'x testb option" where
  "do_call (Opentrace n d) s = opentrace n d s"
| "do_call (Trace n) s = trace n s"
| "do_call (Pausetrace p) s = Some (snd (pausetrace p s))"
| "do_call Pausetrace_query s = Some s"
| "do_call Closetrace s = closetrace s"
| "do_call Eval s = Some (eval s)"
| "do_call Tick s = tick s"
| "do_call (Done g) s = Some (snd (done_tb g s))"
| "do_call Reset s = reset s"

fun run :: "call list \<Rightarrow> 'x testb \<Rightarrow> 'x testb option" where
  "run [] s = Some s"
| "run (c # cs) s = do { s1 \<leftarrow> do_call c s; run cs s1 }"

text \<open>The number of \<open>tick()\<close> calls of a sequence: \<open>reset()\<close> calls \<open>tick()\<close> once.\<close>

fun ticks_of :: "call list \<Rightarrow> nat" where
  "ticks_of [] = 0"
| "ticks_of (Tick # cs) = Suc (ticks_of cs)"
| "ticks_of (Reset # cs) = Suc (ticks_of cs)"
| "ticks_of (_ # cs) = ticks_of cs"

text \<open>The timestamps of the samples of a trace object, in the order they were written.\<close>

fun samples :: "tracec \<Rightarrow> 64 word list" where
  "samples [] = []"
| "samples (Dump t # cs) = t # samples cs"
| "samples (_ # cs) = samples cs"

section \<open>What each operation does\<close>

text \<open>
  \<open>tick()\<close> never dereferences a null trace pointer, so it always returns; its result is
  written out for its two cases, tracing and not tracing.
\<close>

lemma tick_traced:
  assumes "m_trace s = Some tr" "\<not> m_paused_trace s"
  shows "tick s = Some (s\<lparr>
      m_core := (m_core s)\<lparr> i_clk := 0,
         evals := evals (m_core s) @ [(i_clk (m_core s), i_reset (m_core s)), (1, i_reset (m_core s)), (0, i_reset (m_core s))] \<rparr>,
      m_changed := False,
      m_trace := Some (tr @ [Dump (m_time_ps s + 6944), Dump (m_time_ps s + 13888), Flush, Dump (m_time_ps s + 27777)]),
      m_time_ps := m_time_ps s + 27777 \<rparr>)"
  using assms by (simp add: tick_def eval_def core_eval_def call_trace_def sim_clk_tick_def Let_def)

lemma tick_untraced:
  assumes "m_trace s = None \<or> m_paused_trace s"
  shows "tick s = Some (s\<lparr>
      m_core := (m_core s)\<lparr> i_clk := 0,
         evals := evals (m_core s) @ [(i_clk (m_core s), i_reset (m_core s)), (1, i_reset (m_core s)), (0, i_reset (m_core s))] \<rparr>,
      m_changed := False,
      m_time_ps := m_time_ps s + 27777 \<rparr>)"
  using assms by (auto simp add: tick_def eval_def core_eval_def call_trace_def sim_clk_tick_def Let_def)

lemma opentrace_new:
  "m_trace s = None \<Longrightarrow> opentrace n d s = Some (s\<lparr>
      m_trace := Some [Register 99, Set_time_resolution ''ps'', Set_time_unit ''ps'', Open n],
      m_paused_trace := False \<rparr>)"
  by (simp add: opentrace_def call_trace_def)

lemma opentrace_old: "m_trace s = Some tr \<Longrightarrow> opentrace n d s = Some s"
  by (simp add: opentrace_def)

lemma closetrace_open:
  "m_trace s = Some tr \<Longrightarrow> closetrace s = Some (s\<lparr> m_trace := None, closed := closed s @ [tr @ [Close]] \<rparr>)"
  by (simp add: closetrace_def call_trace_def)

lemma closetrace_none: "m_trace s = None \<Longrightarrow> closetrace s = Some s"
  by (simp add: closetrace_def)

lemma tick_props:
  "\<exists>s'. tick s = Some s' \<and> m_time_ps s' = m_time_ps s + 27777 \<and> m_done s' = m_done s
     \<and> m_paused_trace s' = m_paused_trace s \<and> closed s' = closed s
     \<and> (m_trace s = None \<or> m_paused_trace s \<longrightarrow> m_trace s' = m_trace s)"
proof (cases "m_trace s = None \<or> m_paused_trace s")
  case True
  then show ?thesis by (simp add: tick_untraced)
next
  case False
  then obtain tr where "m_trace s = Some tr" "\<not> m_paused_trace s" by auto
  then show ?thesis by (simp add: tick_traced)
qed

lemma reset_props:
  "\<exists>s'. reset s = Some s' \<and> m_time_ps s' = m_time_ps s + 27777 \<and> m_done s' = m_done s
     \<and> m_paused_trace s' = m_paused_trace s \<and> closed s' = closed s
     \<and> (m_trace s = None \<or> m_paused_trace s \<longrightarrow> m_trace s' = m_trace s)"
proof -
  let ?s1 = "s\<lparr> m_core := (m_core s)\<lparr> i_reset := 1 \<rparr> \<rparr>"
  obtain s2 where "tick ?s1 = Some s2" "m_time_ps s2 = m_time_ps ?s1 + 27777" "m_done s2 = m_done ?s1"
     "m_paused_trace s2 = m_paused_trace ?s1" "closed s2 = closed ?s1"
     "m_trace ?s1 = None \<or> m_paused_trace ?s1 \<longrightarrow> m_trace s2 = m_trace ?s1"
    using tick_props [of ?s1] by blast
  then show ?thesis by (simp add: reset_def)
qed

lemma opentrace_props:
  "\<exists>s'. opentrace n d s = Some s' \<and> m_time_ps s' = m_time_ps s \<and> m_done s' = m_done s"
  by (cases "m_trace s") (simp_all add: opentrace_new opentrace_old)

lemma closetrace_props:
  "\<exists>s'. closetrace s = Some s' \<and> m_time_ps s' = m_time_ps s \<and> m_done s' = m_done s"
  by (cases "m_trace s") (simp_all add: closetrace_open closetrace_none)

lemma done_tb_props:
  "m_time_ps (snd (done_tb g s)) = m_time_ps s \<and> (m_done s \<longrightarrow> m_done (snd (done_tb g s)))"
  by (simp add: done_tb_def)

lemma do_call_props:
  "\<exists>s'. do_call c s = Some s' \<and> m_time_ps s' = m_time_ps s + of_nat (ticks_of [c]) * 27777
      \<and> (m_done s \<longrightarrow> m_done s')"
proof (cases c)
  case (Opentrace n d) then show ?thesis using opentrace_props [of n d s] by auto
next
  case (Trace n) then show ?thesis using opentrace_props [of n 99 s] by (auto simp: trace_def)
next
  case (Pausetrace p) then show ?thesis by (simp add: pausetrace_def)
next
  case Pausetrace_query then show ?thesis by simp
next
  case Closetrace then show ?thesis using closetrace_props [of s] by auto
next
  case Eval then show ?thesis by (simp add: eval_def)
next
  case Tick then show ?thesis using tick_props [of s] by auto
next
  case (Done g) then show ?thesis using done_tb_props [of g s] by simp
next
  case Reset then show ?thesis using reset_props [of s] by auto
qed

lemma ticks_of_Cons: "ticks_of (c # cs) = ticks_of [c] + ticks_of cs"
  by (cases c) simp_all

lemma run_props:
  "\<exists>s'. run cs s = Some s' \<and> m_time_ps s' = m_time_ps s + of_nat (ticks_of cs) * 27777
      \<and> (m_done s \<longrightarrow> m_done s')"
proof (induction cs arbitrary: s)
  case Nil
  show ?case by simp
next
  case (Cons c cs)
  obtain s1 where c: "do_call c s = Some s1"
      "m_time_ps s1 = m_time_ps s + of_nat (ticks_of [c]) * 27777" "m_done s \<longrightarrow> m_done s1"
    using do_call_props [of c s] by blast
  obtain s2 where r: "run cs s1 = Some s2"
      "m_time_ps s2 = m_time_ps s1 + of_nat (ticks_of cs) * 27777" "m_done s1 \<longrightarrow> m_done s2"
    using Cons.IH [of s1] by blast
  have "ticks_of (c # cs) = ticks_of [c] + ticks_of cs" by (rule ticks_of_Cons)
  with c r show ?case by (simp add: algebra_simps)
qed

lemma ticks_of_replicate: "ticks_of (replicate n Tick) = n"
  by (induction n) simp_all


lemma unat_advance:
  "unat ((t :: 64 word) + of_nat n * 27777) = (unat t + n * 27777) mod 2 ^ 64"
  by (simp add: unat_word_ariths unat_of_nat mod_simps)

lemma run_append: "run (xs @ ys) s = run xs s \<bind> run ys"
proof (induction xs arbitrary: s)
  case Nil
  show ?case by simp
next
  case (Cons c cs)
  then show ?case by (cases "do_call c s") simp_all
qed

lemma ticks_of_append: "ticks_of (xs @ ys) = ticks_of xs + ticks_of ys"
proof (induction xs)
  case Nil
  show ?case by simp
next
  case (Cons c cs)
  then show ?case by (cases c) simp_all
qed

lemma word_order_in_period:
  fixes t :: "64 word"
  assumes "unat t + (13888 + 13889) < 2 ^ 64"
  shows "t < t + 6944 \<and> t + 6944 < t + 13888 \<and> t + 13888 < t + 13888 + 13889"
proof -
  have e: "t + 13888 + 13889 = t + 27777" by simp
  have a: "unat (t + 6944) = unat t + 6944" using assms by (simp add: unat_word_ariths)
  have b: "unat (t + 13888) = unat t + 13888" using assms by (simp add: unat_word_ariths)
  have c: "unat (t + 27777) = unat t + 27777" using assms by (simp add: unat_word_ariths)
  show ?thesis unfolding e word_less_nat_alt a b c by simp
qed

lemma ticks_paused:
  "m_trace s = None \<or> m_paused_trace s \<Longrightarrow>
   \<exists>s'. run (replicate n Tick) s = Some s' \<and> m_trace s' = m_trace s \<and> closed s' = closed s
      \<and> m_paused_trace s' = m_paused_trace s
      \<and> m_time_ps s' = m_time_ps s + of_nat n * 27777"
proof (induction n arbitrary: s)
  case 0
  show ?case by simp
next
  case (Suc n)
  obtain s1 where t: "tick s = Some s1" "m_time_ps s1 = m_time_ps s + 27777"
      "m_paused_trace s1 = m_paused_trace s" "closed s1 = closed s" "m_trace s1 = m_trace s"
    using tick_props [of s] Suc.prems by blast
  then have "m_trace s1 = None \<or> m_paused_trace s1" using Suc.prems by simp
  from Suc.IH [OF this] t show ?case by (auto simp: algebra_simps)
qed

section \<open>Simulated time\<close>

text \<open>
  Claim C1, as amended. \<open>m_time_ps\<close> is 0 after construction. Whatever the calls made on
  a test bench (opening, pausing and closing the trace, \<open>eval()\<close>, \<open>done()\<close>, \<open>reset()\<close>,
  \<open>tick()\<close>), they all return, and if \<open>tick()\<close> has run \<open>N\<close> times among them (a
  \<open>reset()\<close> runs it once), \<open>m_time_ps\<close> has advanced by \<open>N * (13888 + 13889)\<close> in
  the arithmetic of \<open>uint64_t\<close>, that is modulo \<open>2 ^ 64\<close>. As long as the sum stays
  below \<open>2 ^ 64\<close> the advance is exactly \<open>N * (13888 + 13889)\<close>, and the time is
  strictly greater after the calls than before when at least one of them ticked.
\<close>

theorem time_after_calls:
  "m_time_ps (TESTB va c0) = 0 \<and>
   (\<exists>s'. run cs s = Some s'
      \<and> m_time_ps s' = m_time_ps s + of_nat (ticks_of cs) * (13888 + 13889)
      \<and> unat (m_time_ps s') = (unat (m_time_ps s) + ticks_of cs * (13888 + 13889)) mod 2 ^ 64
      \<and> (unat (m_time_ps s) + ticks_of cs * (13888 + 13889) < 2 ^ 64 \<longrightarrow>
           unat (m_time_ps s') = unat (m_time_ps s) + ticks_of cs * (13888 + 13889)
           \<and> (0 < ticks_of cs \<longrightarrow> m_time_ps s < m_time_ps s')))"
proof -
  obtain s' where r: "run cs s = Some s'"
      "m_time_ps s' = m_time_ps s + of_nat (ticks_of cs) * 27777"
    using run_props [of cs s] by blast
  have u: "unat (m_time_ps s') = (unat (m_time_ps s) + ticks_of cs * 27777) mod 2 ^ 64"
    using r(2) by (simp only: unat_advance)
  have "m_time_ps s < m_time_ps s'"
    if "unat (m_time_ps s) + ticks_of cs * 27777 < 2 ^ 64" "0 < ticks_of cs"
    using that u by (simp add: word_less_nat_alt)
  with r u show ?thesis by (simp add: TESTB_def)
qed

theorem time_after_calls_witness:
  "unat (m_time_ps (TESTB \<lparr>i_clk = 0, i_reset = 0, evals = []\<rparr> False))
      + ticks_of [Opentrace ''t.vcd'' 99, Tick, Pausetrace True, Reset, Closetrace, Tick] * (13888 + 13889) < 2 ^ 64
   \<and> (\<exists>s'. run [Opentrace ''t.vcd'' 99, Tick, Pausetrace True, Reset, Closetrace, Tick]
              (TESTB \<lparr>i_clk = 0, i_reset = 0, evals = []\<rparr> False) = Some s'
         \<and> unat (m_time_ps s') = 3 * (13888 + 13889)
         \<and> m_time_ps (TESTB \<lparr>i_clk = 0, i_reset = 0, evals = []\<rparr> False) < m_time_ps s')"
  using time_after_calls [of "\<lparr>i_clk = 0, i_reset = 0, evals = []\<rparr>" False
      "[Opentrace ''t.vcd'' 99, Tick, Pausetrace True, Reset, Closetrace, Tick]"
      "TESTB \<lparr>i_clk = 0, i_reset = 0, evals = []\<rparr> False"]
  by (auto simp del: run.simps)

text \<open>
  Claim C1 as stated fails once the 64-bit counter wraps: after 664101381492225 ticks
  of a new test bench the time is 18446744073709533825, and one more tick takes it to
  9986, which is smaller and is not 664101381492226 periods.
\<close>

theorem time_wraps_counterexample:
  "map_option m_time_ps (run (replicate 664101381492225 Tick)
       (TESTB \<lparr>i_clk = 0, i_reset = 0, evals = []\<rparr> False)) = Some 18446744073709533825
   \<and> map_option m_time_ps (run (replicate 664101381492226 Tick)
       (TESTB \<lparr>i_clk = 0, i_reset = 0, evals = []\<rparr> False)) = Some 9986
   \<and> (9986 :: 64 word) < 18446744073709533825
   \<and> unat (9986 :: 64 word) \<noteq> 664101381492226 * (13888 + 13889)"
proof -
  let ?init = "TESTB \<lparr>i_clk = 0, i_reset = 0, evals = []\<rparr> False"
  have t: "map_option m_time_ps (run (replicate n Tick) ?init) = Some (of_nat n * 27777)" for n
    using run_props [of "replicate n Tick" ?init]
    by (auto simp: ticks_of_replicate TESTB_def)
  have a: "map_option m_time_ps (run (replicate 664101381492225 Tick) ?init) = Some 18446744073709533825"
    by (simp only: t) simp
  have b: "map_option m_time_ps (run (replicate 664101381492226 Tick) ?init) = Some 9986"
    by (simp only: t) simp
  show ?thesis by (simp only: a b) simp
qed

section \<open>Tracing\<close>

text \<open>
  Claim C2. On a test bench whose trace is open and not paused, \<open>tick()\<close> returns and
  makes exactly four calls on the trace object, in this order: \<open>dump\<close> at the current
  time plus 6944, \<open>dump\<close> at the time advanced by 13888, \<open>flush\<close>, and \<open>dump\<close> at the
  time advanced by 13889 more: three samples. The offset 6944 lies strictly between 0, where
  the previous tick wrote its last sample, and the half period 13888 of the rising edge; the
  timestamps are \<open>uint64_t\<close> values, and while the time stays below \<open>2 ^ 64\<close> they are
  strictly increasing. The scenario: a new test bench, \<open>opentrace\<close>, three ticks,
  \<open>closetrace\<close> ends at time \<open>3 * (13888 + 13889)\<close> with one closed trace that holds
  nine samples, at strictly increasing timestamps.
\<close>

theorem tick_writes_three_samples:
  "(0 :: nat) < 6944 \<and> (6944 :: nat) < 13888
   \<and> (m_trace s = Some tr \<and> \<not> m_paused_trace s \<longrightarrow>
        (\<exists>s'. tick s = Some s'
           \<and> m_trace s' = Some (tr @ [Dump (m_time_ps s + 6944), Dump (m_time_ps s + 13888), Flush,
                                      Dump (m_time_ps s + 13888 + 13889)])
           \<and> m_time_ps s' = m_time_ps s + 13888 + 13889
           \<and> (unat (m_time_ps s) + (13888 + 13889) < 2 ^ 64 \<longrightarrow>
                m_time_ps s < m_time_ps s + 6944
                \<and> m_time_ps s + 6944 < m_time_ps s + 13888
                \<and> m_time_ps s + 13888 < m_time_ps s + 13888 + 13889)))
   \<and> (\<exists>s1. run [Opentrace ''t.vcd'' 99, Tick, Tick, Tick, Closetrace] (TESTB va c0) = Some s1
         \<and> m_time_ps s1 = 3 * (13888 + 13889)
         \<and> m_trace s1 = None
         \<and> map samples (closed s1) =
             [[6944, 13888, 27777, 34721, 41665, 55554, 62498, 69442, 83331]]
         \<and> sorted_wrt (<) [6944, 13888, 27777, 34721, 41665, 55554, 62498, 69442, 83331 :: 64 word])"
proof -
  have e: "m_time_ps s + 13888 + 13889 = m_time_ps s + 27777" by simp
  have one: "m_trace s = Some tr \<and> \<not> m_paused_trace s \<longrightarrow>
        (\<exists>s'. tick s = Some s'
           \<and> m_trace s' = Some (tr @ [Dump (m_time_ps s + 6944), Dump (m_time_ps s + 13888), Flush,
                                      Dump (m_time_ps s + 13888 + 13889)])
           \<and> m_time_ps s' = m_time_ps s + 13888 + 13889
           \<and> (unat (m_time_ps s) + (13888 + 13889) < 2 ^ 64 \<longrightarrow>
                m_time_ps s < m_time_ps s + 6944
                \<and> m_time_ps s + 6944 < m_time_ps s + 13888
                \<and> m_time_ps s + 13888 < m_time_ps s + 13888 + 13889))"
  proof (intro impI, elim conjE)
    assume h: "m_trace s = Some tr" "\<not> m_paused_trace s"
    from tick_traced [OF h]
    have "\<exists>s'. tick s = Some s'
           \<and> m_trace s' = Some (tr @ [Dump (m_time_ps s + 6944), Dump (m_time_ps s + 13888), Flush,
                                      Dump (m_time_ps s + 27777)])
           \<and> m_time_ps s' = m_time_ps s + 27777"
      by simp
    with word_order_in_period [of "m_time_ps s"]
    show "\<exists>s'. tick s = Some s'
           \<and> m_trace s' = Some (tr @ [Dump (m_time_ps s + 6944), Dump (m_time_ps s + 13888), Flush,
                                      Dump (m_time_ps s + 13888 + 13889)])
           \<and> m_time_ps s' = m_time_ps s + 13888 + 13889
           \<and> (unat (m_time_ps s) + (13888 + 13889) < 2 ^ 64 \<longrightarrow>
                m_time_ps s < m_time_ps s + 6944
                \<and> m_time_ps s + 6944 < m_time_ps s + 13888
                \<and> m_time_ps s + 13888 < m_time_ps s + 13888 + 13889)"
      unfolding e by blast
  qed
  have scen: "\<exists>s1. run [Opentrace ''t.vcd'' 99, Tick, Tick, Tick, Closetrace] (TESTB va c0) = Some s1
         \<and> m_time_ps s1 = 3 * (13888 + 13889)
         \<and> m_trace s1 = None
         \<and> map samples (closed s1) =
             [[6944, 13888, 27777, 34721, 41665, 55554, 62498, 69442, 83331]]
         \<and> sorted_wrt (<) [6944, 13888, 27777, 34721, 41665, 55554, 62498, 69442, 83331 :: 64 word]"
    by (simp add: TESTB_def opentrace_new tick_traced closetrace_open)
  show ?thesis by (rule conjI [OF _ conjI [OF _ conjI [OF one scen]]]) simp_all
qed

theorem tick_writes_three_samples_witness:
  "m_trace ((TESTB \<lparr>i_clk = 0, i_reset = 0, evals = []\<rparr> False)
        \<lparr> m_trace := Some [Register 99, Set_time_resolution ''ps'', Set_time_unit ''ps'', Open ''t.vcd''] \<rparr>)
      = Some [Register 99, Set_time_resolution ''ps'', Set_time_unit ''ps'', Open ''t.vcd'']
   \<and> \<not> m_paused_trace ((TESTB \<lparr>i_clk = 0, i_reset = 0, evals = []\<rparr> False)
        \<lparr> m_trace := Some [Register 99, Set_time_resolution ''ps'', Set_time_unit ''ps'', Open ''t.vcd''] \<rparr>)
   \<and> (\<exists>s'. tick ((TESTB \<lparr>i_clk = 0, i_reset = 0, evals = []\<rparr> False)
        \<lparr> m_trace := Some [Register 99, Set_time_resolution ''ps'', Set_time_unit ''ps'', Open ''t.vcd''] \<rparr>) = Some s'
         \<and> m_trace s' = Some [Register 99, Set_time_resolution ''ps'', Set_time_unit ''ps'', Open ''t.vcd'',
                                Dump 6944, Dump 13888, Flush, Dump 27777]
         \<and> m_time_ps s' = 27777)
   \<and> unat (m_time_ps ((TESTB \<lparr>i_clk = 0, i_reset = 0, evals = []\<rparr> False)
        \<lparr> m_trace := Some [Register 99, Set_time_resolution ''ps'', Set_time_unit ''ps'', Open ''t.vcd''] \<rparr>))
        + (13888 + 13889) < 2 ^ 64
   \<and> (0 :: 64 word) < 6944 \<and> (6944 :: 64 word) < 13888 \<and> (13888 :: 64 word) < 27777"
  using tick_writes_three_samples [of
      "(TESTB \<lparr>i_clk = 0, i_reset = 0, evals = []\<rparr> False)
        \<lparr> m_trace := Some [Register 99, Set_time_resolution ''ps'', Set_time_unit ''ps'', Open ''t.vcd''] \<rparr>"
      "[Register 99, Set_time_resolution ''ps'', Set_time_unit ''ps'', Open ''t.vcd'']"]
  by (auto simp: TESTB_def simp del: run.simps)

text \<open>
  Claim C3 fails on the code: \<open>opentrace\<close> has a parameter \<open>depth\<close>, and passes the
  literal 99 to \<open>m_core->trace\<close> instead. Opening a trace with depth 5 on a new test
  bench registers the trace object with 99 levels.
\<close>

theorem opentrace_ignores_depth:
  "map_option m_trace (opentrace ''t.vcd'' 5 (TESTB \<lparr>i_clk = 0, i_reset = 0, evals = []\<rparr> False))
     = Some (Some [Register 99, Set_time_resolution ''ps'', Set_time_unit ''ps'', Open ''t.vcd''])"
  by (simp add: TESTB_def opentrace_new)

text \<open>
  Claim C4, as amended. \<open>opentrace\<close> always returns. When no trace object exists it
  leaves \<open>m_paused_trace\<close> false; when one exists it leaves \<open>m_paused_trace\<close> as it was,
  since the assignment is inside the \<open>if (!m_trace)\<close> block.
\<close>

theorem opentrace_paused_flag:
  "\<exists>s'. opentrace n d s = Some s'
     \<and> (m_trace s = None \<longrightarrow> \<not> m_paused_trace s')
     \<and> (m_trace s \<noteq> None \<longrightarrow> m_paused_trace s' = m_paused_trace s)"
  by (cases "m_trace s") (simp_all add: opentrace_new opentrace_old)

theorem opentrace_paused_flag_witness:
  "m_trace ((TESTB \<lparr>i_clk = 0, i_reset = 0, evals = []\<rparr> False)\<lparr> m_paused_trace := True \<rparr>) = None
   \<and> (\<exists>s'. opentrace ''a'' 99 ((TESTB \<lparr>i_clk = 0, i_reset = 0, evals = []\<rparr> False)\<lparr> m_paused_trace := True \<rparr>) = Some s'
         \<and> \<not> m_paused_trace s')
   \<and> m_trace ((TESTB \<lparr>i_clk = 0, i_reset = 0, evals = []\<rparr> False)
         \<lparr> m_trace := Some [Register 99, Set_time_resolution ''ps'', Set_time_unit ''ps'', Open ''a''],
           m_paused_trace := True \<rparr>) \<noteq> None
   \<and> (\<exists>s'. opentrace ''a'' 99 ((TESTB \<lparr>i_clk = 0, i_reset = 0, evals = []\<rparr> False)
         \<lparr> m_trace := Some [Register 99, Set_time_resolution ''ps'', Set_time_unit ''ps'', Open ''a''],
           m_paused_trace := True \<rparr>) = Some s'
         \<and> m_paused_trace s')"
  using opentrace_paused_flag [of "''a''" 99
      "(TESTB \<lparr>i_clk = 0, i_reset = 0, evals = []\<rparr> False)\<lparr> m_paused_trace := True \<rparr>"]
    opentrace_paused_flag [of "''a''" 99
      "(TESTB \<lparr>i_clk = 0, i_reset = 0, evals = []\<rparr> False)
         \<lparr> m_trace := Some [Register 99, Set_time_resolution ''ps'', Set_time_unit ''ps'', Open ''a''],
           m_paused_trace := True \<rparr>"]
  by (auto simp: TESTB_def)

text \<open>
  Claim C4 as stated fails: open a trace, pause it, call \<open>opentrace\<close> again, and the
  trace is still paused.
\<close>

theorem opentrace_keeps_pause_counterexample:
  "map_option m_paused_trace
     (run [Opentrace ''a'' 99, Pausetrace True, Opentrace ''a'' 99]
        (TESTB \<lparr>i_clk = 0, i_reset = 0, evals = []\<rparr> False)) = Some True"
  by (simp add: TESTB_def opentrace_new opentrace_old pausetrace_def)

text \<open>
  Claim C6. Calling \<open>opentrace\<close> with the same name twice in a row: both calls return,
  and the second one changes nothing at all, whatever the state before the first and
  whatever the depth arguments: no trace object is created or closed, and the open one
  receives no call. When no trace was open before the first call, the one trace object
  open afterwards is the one that was opened with that name. This is so because
  \<open>opentrace\<close> does nothing at all once a trace object exists, whatever that object has
  received so far and whatever the name and depth of the call: the existing object is not
  replaced by a new one, receives no call and keeps its file, and the pause flag stays.
\<close>

theorem opentrace_idempotent:
  "\<exists>s1. opentrace a d s = Some s1 \<and> opentrace a d' s1 = Some s1
     \<and> closed s1 = closed s
     \<and> (m_trace s = None \<longrightarrow>
          m_trace s1 = Some [Register 99, Set_time_resolution ''ps'', Set_time_unit ''ps'', Open a])
     \<and> (m_trace s = Some tr \<longrightarrow> opentrace a d s = Some s)
     \<and> opentrace b d' s1 = Some s1
     \<and> m_trace s1 \<noteq> None"
  by (cases "m_trace s") (simp_all add: opentrace_new opentrace_old)

theorem opentrace_idempotent_witness:
  "m_trace (TESTB \<lparr>i_clk = 0, i_reset = 0, evals = []\<rparr> False) = None
   \<and> (\<exists>s1. opentrace ''a'' 99 (TESTB \<lparr>i_clk = 0, i_reset = 0, evals = []\<rparr> False) = Some s1
         \<and> opentrace ''a'' 99 s1 = Some s1
         \<and> opentrace ''b'' 99 s1 = Some s1
         \<and> m_trace s1 = Some [Register 99, Set_time_resolution ''ps'', Set_time_unit ''ps'', Open ''a''])
   \<and> m_trace ((TESTB \<lparr>i_clk = 0, i_reset = 0, evals = []\<rparr> False)
         \<lparr> m_trace := Some [Register 99, Set_time_resolution ''ps'', Set_time_unit ''ps'', Open ''a'',
                             Dump 6944, Dump 13888, Flush, Dump 27777],
           m_paused_trace := True, m_time_ps := 27777 \<rparr>)
       = Some [Register 99, Set_time_resolution ''ps'', Set_time_unit ''ps'', Open ''a'',
               Dump 6944, Dump 13888, Flush, Dump 27777]
   \<and> opentrace ''a'' 99 ((TESTB \<lparr>i_clk = 0, i_reset = 0, evals = []\<rparr> False)
         \<lparr> m_trace := Some [Register 99, Set_time_resolution ''ps'', Set_time_unit ''ps'', Open ''a'',
                             Dump 6944, Dump 13888, Flush, Dump 27777],
           m_paused_trace := True, m_time_ps := 27777 \<rparr>)
       = Some ((TESTB \<lparr>i_clk = 0, i_reset = 0, evals = []\<rparr> False)
         \<lparr> m_trace := Some [Register 99, Set_time_resolution ''ps'', Set_time_unit ''ps'', Open ''a'',
                             Dump 6944, Dump 13888, Flush, Dump 27777],
           m_paused_trace := True, m_time_ps := 27777 \<rparr>)"
  using opentrace_idempotent [of "''a''" 99 "TESTB \<lparr>i_clk = 0, i_reset = 0, evals = []\<rparr> False" 99
      "[]" "''b''"]
    opentrace_idempotent [of "''a''" 99
      "(TESTB \<lparr>i_clk = 0, i_reset = 0, evals = []\<rparr> False)
         \<lparr> m_trace := Some [Register 99, Set_time_resolution ''ps'', Set_time_unit ''ps'', Open ''a'',
                             Dump 6944, Dump 13888, Flush, Dump 27777],
           m_paused_trace := True, m_time_ps := 27777 \<rparr>" 99
      "[Register 99, Set_time_resolution ''ps'', Set_time_unit ''ps'', Open ''a'',
        Dump 6944, Dump 13888, Flush, Dump 27777]" "''a''"]
  by (auto simp: TESTB_def)

text \<open>
  Claim C7, as amended. With a trace open, \<open>pausetrace(true)\<close> followed by \<open>n\<close>
  ticks returns, and the trace object has received no call at all (no write, no flush, no
  close) and no trace was closed, while \<open>m_time_ps\<close> has advanced by
  \<open>n * (13888 + 13889)\<close> in the arithmetic of \<open>uint64_t\<close>, that is modulo \<open>2 ^ 64\<close>:
  by exactly \<open>n * (13888 + 13889)\<close> as long as the sum stays below \<open>2 ^ 64\<close>. The
  \<open>pausetrace(false)\<close> that follows only clears the flag.
\<close>

theorem pause_suppresses_writes:
  "m_trace s = Some tr \<longrightarrow>
   (\<exists>s1 s2. run (Pausetrace True # replicate n Tick) s = Some s1
      \<and> m_trace s1 = Some tr \<and> closed s1 = closed s
      \<and> m_time_ps s1 = m_time_ps s + of_nat n * (13888 + 13889)
      \<and> (unat (m_time_ps s) + n * (13888 + 13889) < 2 ^ 64 \<longrightarrow>
           unat (m_time_ps s1) = unat (m_time_ps s) + n * (13888 + 13889))
      \<and> run (Pausetrace True # replicate n Tick @ [Pausetrace False]) s = Some s2
      \<and> s2 = s1\<lparr> m_paused_trace := False \<rparr>)"
proof
  assume h: "m_trace s = Some tr"
  let ?p = "s\<lparr> m_paused_trace := True \<rparr>"
  obtain s1 where r: "run (replicate n Tick) ?p = Some s1" "m_trace s1 = m_trace ?p"
      "closed s1 = closed ?p" "m_time_ps s1 = m_time_ps ?p + of_nat n * 27777"
    using ticks_paused [of ?p n] by auto
  have r1: "run (Pausetrace True # replicate n Tick) s = Some s1"
    using r(1) by (simp add: pausetrace_def)
  have "run ((Pausetrace True # replicate n Tick) @ [Pausetrace False]) s
          = Some (s1\<lparr> m_paused_trace := False \<rparr>)"
    unfolding run_append r1 by (simp add: pausetrace_def)
  then have r2: "run (Pausetrace True # replicate n Tick @ [Pausetrace False]) s
          = Some (s1\<lparr> m_paused_trace := False \<rparr>)"
    by simp
  have u: "unat (m_time_ps s1) = (unat (m_time_ps s) + n * 27777) mod 2 ^ 64"
    using r(4) by (simp add: unat_advance)
  show "\<exists>s1 s2. run (Pausetrace True # replicate n Tick) s = Some s1
      \<and> m_trace s1 = Some tr \<and> closed s1 = closed s
      \<and> m_time_ps s1 = m_time_ps s + of_nat n * (13888 + 13889)
      \<and> (unat (m_time_ps s) + n * (13888 + 13889) < 2 ^ 64 \<longrightarrow>
           unat (m_time_ps s1) = unat (m_time_ps s) + n * (13888 + 13889))
      \<and> run (Pausetrace True # replicate n Tick @ [Pausetrace False]) s = Some s2
      \<and> s2 = s1\<lparr> m_paused_trace := False \<rparr>"
    using r1 r2 r(2,3,4) u h by (simp del: run.simps)
qed

theorem pause_suppresses_writes_witness:
  "m_trace ((TESTB \<lparr>i_clk = 0, i_reset = 0, evals = []\<rparr> False)
        \<lparr> m_trace := Some [Register 99, Set_time_resolution ''ps'', Set_time_unit ''ps'', Open ''t.vcd''] \<rparr>)
      = Some [Register 99, Set_time_resolution ''ps'', Set_time_unit ''ps'', Open ''t.vcd'']
   \<and> (\<exists>s2. run (Pausetrace True # replicate 4 Tick @ [Pausetrace False])
          ((TESTB \<lparr>i_clk = 0, i_reset = 0, evals = []\<rparr> False)
            \<lparr> m_trace := Some [Register 99, Set_time_resolution ''ps'', Set_time_unit ''ps'', Open ''t.vcd''] \<rparr>) = Some s2
         \<and> m_trace s2 = Some [Register 99, Set_time_resolution ''ps'', Set_time_unit ''ps'', Open ''t.vcd'']
         \<and> \<not> m_paused_trace s2
         \<and> m_time_ps s2 = 111108
         \<and> unat (m_time_ps s2) = 4 * (13888 + 13889))
   \<and> unat (m_time_ps ((TESTB \<lparr>i_clk = 0, i_reset = 0, evals = []\<rparr> False)
        \<lparr> m_trace := Some [Register 99, Set_time_resolution ''ps'', Set_time_unit ''ps'', Open ''t.vcd''] \<rparr>))
        + 4 * (13888 + 13889) < 2 ^ 64"
  using pause_suppresses_writes [of
      "(TESTB \<lparr>i_clk = 0, i_reset = 0, evals = []\<rparr> False)
        \<lparr> m_trace := Some [Register 99, Set_time_resolution ''ps'', Set_time_unit ''ps'', Open ''t.vcd''] \<rparr>"
      "[Register 99, Set_time_resolution ''ps'', Set_time_unit ''ps'', Open ''t.vcd'']" 4]
  by (auto simp: TESTB_def simp del: run.simps replicate.simps)

text \<open>
  Claim C7 as stated fails once the 64-bit counter wraps: on a new test bench with a trace
  open, 664101381492226 paused ticks take the time from 0 to 9986, not to 664101381492226
  periods.
\<close>

theorem pause_time_wraps_counterexample:
  "map_option m_time_ps (run [Opentrace ''t.vcd'' 99]
       (TESTB \<lparr>i_clk = 0, i_reset = 0, evals = []\<rparr> False)) = Some 0
   \<and> map_option m_time_ps
       (run ([Opentrace ''t.vcd'' 99, Pausetrace True] @ replicate 664101381492226 Tick @ [Pausetrace False])
          (TESTB \<lparr>i_clk = 0, i_reset = 0, evals = []\<rparr> False)) = Some 9986
   \<and> unat (9986 :: 64 word) \<noteq> unat (0 :: 64 word) + 664101381492226 * (13888 + 13889)"
proof -
  let ?init = "TESTB \<lparr>i_clk = 0, i_reset = 0, evals = []\<rparr> False"
  have t: "map_option m_time_ps (run cs ?init) = Some (of_nat (ticks_of cs) * 27777)" for cs
    using run_props [of cs ?init] by (auto simp: TESTB_def)
  have n: "ticks_of ([Opentrace ''t.vcd'' 99, Pausetrace True] @ replicate 664101381492226 Tick
              @ [Pausetrace False]) = 664101381492226"
    by (simp only: ticks_of_append ticks_of_replicate) simp
  have a: "map_option m_time_ps (run [Opentrace ''t.vcd'' 99] ?init) = Some 0"
    by (simp only: t) simp
  have b: "map_option m_time_ps
       (run ([Opentrace ''t.vcd'' 99, Pausetrace True] @ replicate 664101381492226 Tick @ [Pausetrace False])
          ?init) = Some 9986"
    by (simp only: t n) simp
  show ?thesis by (simp only: a b) simp
qed

text \<open>
  Claim C9. \<open>tick()\<close> returns in every state: no path of it calls through a null
  \<open>m_trace\<close>. When no trace object exists or the trace is paused, the tick makes no call
  on a trace object and closes none; with no trace object there is none afterwards either.
  So a tick is safe before \<open>opentrace\<close>, and after \<open>closetrace\<close>, which always returns and
  leaves no trace object.
\<close>

theorem tick_without_trace:
  "\<exists>s'. tick s = Some s'
     \<and> (m_trace s = None \<or> m_paused_trace s \<longrightarrow> m_trace s' = m_trace s \<and> closed s' = closed s)
     \<and> (m_trace s = None \<longrightarrow> m_trace s' = None)
     \<and> (\<exists>c t. closetrace s = Some c \<and> m_trace c = None \<and> tick c = Some t
            \<and> m_trace t = None \<and> closed t = closed c)"
proof -
  obtain s' where a: "tick s = Some s'" "closed s' = closed s"
      "m_trace s = None \<or> m_paused_trace s \<longrightarrow> m_trace s' = m_trace s"
    using tick_props [of s] by blast
  obtain c where c: "closetrace s = Some c" "m_trace c = None"
    by (cases "m_trace s") (simp_all add: closetrace_open closetrace_none)
  obtain t where t: "tick c = Some t" "closed t = closed c" "m_trace t = m_trace c"
    using tick_props [of c] c(2) by auto
  from a c t show ?thesis by auto
qed

theorem tick_without_trace_witness:
  "m_trace (TESTB \<lparr>i_clk = 0, i_reset = 0, evals = []\<rparr> False) = None
   \<and> (\<exists>s'. tick (TESTB \<lparr>i_clk = 0, i_reset = 0, evals = []\<rparr> False) = Some s'
         \<and> m_trace s' = None \<and> closed s' = [])"
  using tick_without_trace [of "TESTB \<lparr>i_clk = 0, i_reset = 0, evals = []\<rparr> False"]
  by (auto simp: TESTB_def)

section \<open>Termination flag, evaluation and reset\<close>

text \<open>
  Claim C5. When \<open>done()\<close> returns true, \<open>m_done\<close> is set. Once \<open>m_done\<close> is set,
  every sequence of calls (with \<open>Verilated::gotFinish()\<close> reading anything at each
  \<open>done()\<close> among them) returns and leaves it set, and a \<open>done()\<close> after it returns true
  whatever \<open>gotFinish()\<close> reads then. So the flag never goes from true to false, and goes
  from false to true at most once.
\<close>

theorem done_sticky:
  "(fst (done_tb g s) \<longrightarrow> m_done (snd (done_tb g s)))
   \<and> (m_done s \<longrightarrow> (\<exists>s'. run cs s = Some s' \<and> m_done s'
                         \<and> fst (done_tb g' s') \<and> m_done (snd (done_tb g' s'))))"
proof -
  have a: "fst (done_tb g s) \<longrightarrow> m_done (snd (done_tb g s))"
    by (simp add: done_tb_def)
  have b: "\<exists>s'. run cs s = Some s' \<and> m_done s' \<and> fst (done_tb g' s') \<and> m_done (snd (done_tb g' s'))"
    if h: "m_done s"
  proof -
    obtain s' where "run cs s = Some s'" "m_done s'"
      using run_props [of cs s] h by blast
    then show ?thesis by (simp add: done_tb_def)
  qed
  from a b show ?thesis by blast
qed

theorem done_sticky_witness:
  "fst (done_tb True (TESTB \<lparr>i_clk = 0, i_reset = 0, evals = []\<rparr> False))
   \<and> m_done (snd (done_tb True (TESTB \<lparr>i_clk = 0, i_reset = 0, evals = []\<rparr> False)))
   \<and> (\<exists>s'. run [Tick, Done False, Reset, Opentrace ''t.vcd'' 99, Tick, Closetrace]
              (snd (done_tb True (TESTB \<lparr>i_clk = 0, i_reset = 0, evals = []\<rparr> False))) = Some s'
         \<and> m_done s' \<and> fst (done_tb False s'))"
proof -
  let ?s0 = "TESTB \<lparr>i_clk = 0, i_reset = 0, evals = []\<rparr> False"
  have r: "fst (done_tb True ?s0)" by (simp add: done_tb_def TESTB_def)
  have d: "m_done (snd (done_tb True ?s0))"
    using done_sticky [of True ?s0] r by blast
  show ?thesis
    using r d done_sticky [of True "snd (done_tb True ?s0)"
      "[Tick, Done False, Reset, Opentrace ''t.vcd'' 99, Tick, Closetrace]" False]
    by blast
qed

text \<open>
  Claim C8. \<open>reset()\<close> returns. The model is evaluated exactly three times in it, the
  three evaluations of one tick (before the edge with the clock as it was, at the rising
  edge, at the falling edge), each with \<open>i_reset\<close> at 1, and the time advances by one
  period. Afterwards \<open>i_reset\<close> is 0, the clock is low as after every tick, and no other
  member of the model has been written. The three evaluations of a tick that follows see
  \<open>i_reset\<close> at 0.
\<close>

theorem reset_pulse:
  "\<exists>s'. reset s = Some s'
     \<and> evals (m_core s') = evals (m_core s) @ [(i_clk (m_core s), 1), (1, 1), (0, 1)]
     \<and> i_reset (m_core s') = 0
     \<and> i_clk (m_core s') = 0
     \<and> core.more (m_core s') = core.more (m_core s)
     \<and> m_time_ps s' = m_time_ps s + (13888 + 13889)
     \<and> (\<exists>s''. tick s' = Some s''
            \<and> evals (m_core s'') = evals (m_core s') @ [(0, 0), (1, 0), (0, 0)])"
proof (cases "m_trace s = None \<or> m_paused_trace s")
  case True
  then show ?thesis by (simp add: reset_def tick_untraced)
next
  case False
  then obtain tr where "m_trace s = Some tr" "\<not> m_paused_trace s" by auto
  then show ?thesis by (simp add: reset_def tick_traced)
qed

text \<open>
  Claim C10. \<open>eval()\<close> changes no member of the test bench: time, trace object, pause
  flag, done flag and changed flag are as before, no trace is closed, and the model has
  been evaluated once more, on unchanged inputs. \<open>done()\<close> changes at most \<open>m_done\<close>,
  which becomes true when it was true or \<open>gotFinish()\<close> is, and returns that value.
\<close>

theorem eval_done_frame:
  "m_time_ps (eval s) = m_time_ps s \<and> m_trace (eval s) = m_trace s
   \<and> m_paused_trace (eval s) = m_paused_trace s \<and> m_done (eval s) = m_done s
   \<and> m_changed (eval s) = m_changed s \<and> closed (eval s) = closed s
   \<and> m_core (eval s) = core_eval (m_core s)
   \<and> i_clk (core_eval c) = i_clk c \<and> i_reset (core_eval c) = i_reset c
   \<and> core.more (core_eval c) = core.more c
   \<and> snd (done_tb g s) = s\<lparr> m_done := m_done s \<or> g \<rparr>
   \<and> fst (done_tb g s) = (m_done s \<or> g)"
  by (simp add: eval_def core_eval_def done_tb_def)

end
